theory Spec2Isabelle
  imports Main
begin

section \<open>Python strings and the integer conversions of the interpreter\<close>

text \<open>
  A Python \<open>str\<close> is a sequence of Unicode code points; a code point is a natural
  number here. \<open>lit\<close> writes an ASCII literal of the source as such a sequence.
\<close>

type_synonym py_str = "nat list"

definition lit :: "string \<Rightarrow> py_str" where
  "lit s = map of_char s"

text \<open>
  What \<open>int(str)\<close> and \<open>str(int)\<close> read from the running interpreter and not from
  their argument: the limit \<open>sys.get_int_max_str_digits()\<close> (0 switches the limit off;
  interpreters older than the limit behave as with 0), and the Unicode database, which
  \<open>int\<close> asks about code points from 127 upwards only (is it white space, which
  decimal digit is it).
\<close>

record interp =
  max_str_digits :: nat
  unicode_isspace :: "nat \<Rightarrow> bool"
  unicode_todecimal :: "nat \<Rightarrow> nat option"

datatype exc = TypeError | ValueError | KeyError | OSError | SSLError | CancelledError

text \<open>
  \<open>_PyUnicode_TransformDecimalAndSpaceToASCII\<close>: an ASCII string is returned as it
  is; otherwise code points below 127 are kept, white space becomes a blank, a decimal
  digit of any script becomes its ASCII digit, and at the first other code point the
  result ends in a question mark.
\<close>

fun transform_loop :: "interp \<Rightarrow> py_str \<Rightarrow> py_str" where
  "transform_loop ip [] = []"
| "transform_loop ip (ch # cs) =
     (if ch < 127 then ch # transform_loop ip cs
      else if unicode_isspace ip ch then 32 # transform_loop ip cs
      else (case unicode_todecimal ip ch of
              None \<Rightarrow> [63]
            | Some d \<Rightarrow> (48 + d) # transform_loop ip cs))"

definition transform_decimal_and_space :: "interp \<Rightarrow> py_str \<Rightarrow> py_str" where
  "transform_decimal_and_space ip s =
     (if list_all (\<lambda>ch. ch < 128) s then s else transform_loop ip s)"

text \<open>
  \<open>PyLong_FromString\<close> for base 10: blanks, one optional sign, no leading underscore,
  then digits with single underscores between them, the digit limit, blanks, and the end
  of the string. \<open>scan_digits prev s\<close> is the scanning loop; \<open>prev\<close> is the character
  before \<open>s\<close> (0 at the start). It returns the digits read and the rest of the string.
\<close>

definition Py_ISSPACE :: "nat \<Rightarrow> bool" where
  "Py_ISSPACE c = (c = 32 \<or> (9 \<le> c \<and> c \<le> 13))"

definition is_digit :: "nat \<Rightarrow> bool" where
  "is_digit c = (48 \<le> c \<and> c \<le> 57)"

fun scan_digits :: "nat \<Rightarrow> py_str \<Rightarrow> (nat list \<times> py_str) option" where
  "scan_digits prev [] = (if prev = 95 then None else Some ([], []))"
| "scan_digits prev (c # cs) =
     (if c = 95 then (if prev = 95 then None else scan_digits c cs)
      else if is_digit c then
        (case scan_digits c cs of
           None \<Rightarrow> None
         | Some (ds, rest) \<Rightarrow> Some ((c - 48) # ds, rest))
      else if prev = 95 then None
      else Some ([], c # cs))"

definition digits_value :: "nat list \<Rightarrow> nat" where
  "digits_value ds = foldl (\<lambda>a d. a * 10 + d) 0 ds"

definition exceeds_max_str_digits :: "interp \<Rightarrow> nat \<Rightarrow> nat \<Rightarrow> bool" where
  "exceeds_max_str_digits ip len digits =
     (640 < len \<and> 0 < max_str_digits ip \<and> max_str_digits ip < digits)"

definition take_sign :: "py_str \<Rightarrow> int \<times> py_str" where
  "take_sign s =
     (case s of
        [] \<Rightarrow> (1, [])
      | c # cs \<Rightarrow> if c = 43 then (1, cs) else if c = 45 then (- 1, cs) else (1, s))"

definition PyLong_FromString :: "interp \<Rightarrow> py_str \<Rightarrow> int option" where
  "PyLong_FromString ip s =
     (let (sign, s2) = take_sign (dropWhile Py_ISSPACE s) in
      if take 1 s2 = [95] then None
      else
        (case scan_digits 0 s2 of
           None \<Rightarrow> None
         | Some (ds, rest) \<Rightarrow>
             if ds = [] then None
             else if exceeds_max_str_digits ip (length ds) (length ds) then None
             else if dropWhile Py_ISSPACE rest \<noteq> [] then None
             else Some (sign * int (digits_value ds))))"

text \<open>
  \<open>int(value)\<close> as the handler calls it: \<open>value\<close> is a string or \<open>None\<close>.
  \<open>int(None)\<close> raises TypeError, a string that does not parse raises ValueError.
\<close>

definition py_int :: "interp \<Rightarrow> py_str option \<Rightarrow> exc + int" where
  "py_int ip v =
     (case v of
        None \<Rightarrow> Inl TypeError
      | Some s \<Rightarrow>
          (case PyLong_FromString ip (transform_decimal_and_space ip s) of
             None \<Rightarrow> Inl ValueError
           | Some n \<Rightarrow> Inr n))"

text \<open>
  \<open>int.__repr__\<close>, which \<open>json.dumps\<close> calls for an integer: the decimal digits, a
  minus sign before them for a negative number, and ValueError beyond the digit limit.
\<close>

fun dec_digits :: "nat \<Rightarrow> nat list" where
  "dec_digits n = (if n < 10 then [n] else dec_digits (n div 10) @ [n mod 10])"

declare dec_digits.simps [simp del]

definition decimal :: "int \<Rightarrow> py_str" where
  "decimal n = (if n < 0 then [45] else []) @ map (\<lambda>d. 48 + d) (dec_digits (nat \<bar>n\<bar>))"

definition long_to_decimal_string :: "interp \<Rightarrow> int \<Rightarrow> exc + py_str" where
  "long_to_decimal_string ip n =
     (let negative = (if n < 0 then 1 else 0); strlen = length (decimal n) in
      if exceeds_max_str_digits ip strlen (strlen - negative) then Inl ValueError
      else Inr (decimal n))"

section \<open>The logging module\<close>

text \<open>
  The root logger (its level and handlers) and what the calls of this program to
  \<open>logging.info\<close> have written so far, to the standard error stream and to files.
  A written line keeps the format string of the handler that wrote it, the level and the
  message; the time of day that \<open>%(asctime)s\<close> prints is not modelled, and neither are
  the records of the libraries' own loggers, which go to the same handlers.
\<close>

datatype log_target = Stderr | LogFile string

record log_handler =
  target :: log_target
  handler_level :: nat
  fmt :: string

record log_line =
  line_fmt :: string
  line_level :: nat
  line_msg :: py_str

record logging =
  root_level :: nat
  root_handlers :: "log_handler list"
  stderr :: "log_line list"
  files :: "string \<Rightarrow> log_line list option"

definition DEBUG :: nat where "DEBUG = 10"
definition INFO :: nat where "INFO = 20"
definition WARNING :: nat where "WARNING = 30"
definition NOTSET :: nat where "NOTSET = 0"

definition BASIC_FORMAT :: string where
  "BASIC_FORMAT = ''%(levelname)s:%(name)s:%(message)s''"

text \<open>The state of the module when the interpreter starts.\<close>

definition logging_init :: "(string \<Rightarrow> log_line list option) \<Rightarrow> logging" where
  "logging_init fs = \<lparr>root_level = WARNING, root_handlers = [], stderr = [], files = fs\<rparr>"

definition emit :: "nat \<Rightarrow> py_str \<Rightarrow> log_handler \<Rightarrow> logging \<Rightarrow> logging" where
  "emit lvl msg h L =
     (if lvl < handler_level h then L
      else
        (let ln = \<lparr>line_fmt = fmt h, line_level = lvl, line_msg = msg\<rparr> in
         case target h of
           Stderr \<Rightarrow> L\<lparr>stderr := stderr L @ [ln]\<rparr>
         | LogFile p \<Rightarrow>
             L\<lparr>files := (files L)(p \<mapsto> (case files L p of None \<Rightarrow> [] | Some ls \<Rightarrow> ls) @ [ln])\<rparr>))"

text \<open>
  \<open>logging.basicConfig()\<close> without arguments does nothing when the root logger has a
  handler, and otherwise gives it one that writes to standard error in the basic format.
\<close>

definition basicConfig :: "logging \<Rightarrow> logging" where
  "basicConfig L =
     (if root_handlers L = [] then
        L\<lparr>root_handlers := [\<lparr>target = Stderr, handler_level = NOTSET, fmt = BASIC_FORMAT\<rparr>]\<rparr>
      else L)"

text \<open>
  \<open>logging.info(msg)\<close>, the function of the module: it calls \<open>basicConfig()\<close> when the
  root logger has no handler, then \<open>root.info(msg)\<close>, which hands the record to every
  handler of the root logger if the logger is enabled for INFO.
\<close>

definition logging_info :: "py_str \<Rightarrow> logging \<Rightarrow> logging" where
  "logging_info msg L =
     (let L1 = (if root_handlers L = [] then basicConfig L else L) in
      if root_level L1 \<le> INFO then fold (emit INFO msg) (root_handlers L1) L1 else L1)"

section \<open>The ping handler\<close>

text \<open>
  A request as the handler sees it. \<open>request.headers\<close> is a case-insensitive
  multidict: the fields in the order received, a name possibly more than once.
  Header names are HTTP tokens (ASCII), so names are compared after lowering the ASCII
  letters; \<open>get\<close> returns the value of the first field of that name, or \<open>None\<close>.
\<close>

record Request =
  http_method :: string
  path :: py_str
  headers :: "(py_str \<times> py_str) list"

record Response =
  status :: nat
  content_type :: string
  body :: py_str

definition ascii_lower :: "nat \<Rightarrow> nat" where
  "ascii_lower c = (if 65 \<le> c \<and> c \<le> 90 then c + 32 else c)"

fun headers_get :: "(py_str \<times> py_str) list \<Rightarrow> py_str \<Rightarrow> py_str option" where
  "headers_get [] key = None"
| "headers_get ((name, v) # hs) key =
     (if map ascii_lower name = map ascii_lower key then Some v else headers_get hs key)"

text \<open>\<open>class Server\<close>: the one attribute \<open>_step\<close>, set by \<open>__init__\<close>.\<close>

record Server =
  step :: int

definition Server_init :: Server where
  "Server_init = \<lparr>step = 2\<rparr>"

text \<open>
  \<open>aiohttp.web.json_response(data)\<close> for an integer: the body is \<open>json.dumps(data)\<close>,
  computed when the response is built, the status is 200.
\<close>

definition json_response :: "interp \<Rightarrow> int \<Rightarrow> exc + Response" where
  "json_response ip n =
     (case long_to_decimal_string ip n of
        Inl e \<Rightarrow> Inl e
      | Inr s \<Rightarrow> Inr \<lparr>status = 200, content_type = ''application/json'', body = s\<rparr>)"

text \<open>The f-string \<open>f'Handling ping with value {value}'\<close>; \<open>None\<close> prints as None.\<close>

definition ping_message :: "py_str option \<Rightarrow> py_str" where
  "ping_message v =
     lit ''Handling ping with value '' @ (case v of None \<Rightarrow> lit ''None'' | Some s \<Rightarrow> s)"

text \<open>
  \<open>Server.handle_ping\<close>. It takes the server object and the state of the logging
  module and returns them as they are after the call, with the response or the
  exception that leaves the handler.
\<close>

definition handle_ping ::
  "interp \<Rightarrow> Server \<Rightarrow> Request \<Rightarrow> logging \<Rightarrow> (exc + Response) \<times> Server \<times> logging" where
  "handle_ping ip self request L =
     (let v = headers_get (headers request) (lit ''value'');
          L1 = logging_info (ping_message v) L
      in case py_int ip v of
           Inl e \<Rightarrow> (Inl e, self, L1)
         | Inr n \<Rightarrow> (json_response ip (n + step self), self, L1))"

section \<open>The route table\<close>

text \<open>
  What \<open>_make_app\<close> registers. A route has its methods, its path (a prefix for the
  static route), what it calls, and the CORS configuration that \<open>aiohttp_cors\<close> holds
  for it: \<open>None\<close> when the route was never passed to \<open>cors.add\<close>, otherwise the
  dictionary from origins to options.
\<close>

record ResourceOptions =
  allow_credentials :: bool
  expose_headers :: string
  allow_headers :: string
  max_age :: "nat option"

type_synonym cors_config = "(py_str \<times> ResourceOptions) list"

datatype route_handler = StaticFiles string | HandlePing | Preflight

record route =
  methods :: "string list"
  pattern :: py_str
  is_prefix :: bool
  calls :: route_handler
  cors :: "cors_config option"

record Application =
  routes :: "route list"

text \<open>
  \<open>aiohttp_cors.ResourceOptions(expose_headers="*", allow_headers="*")\<close>; the other
  two options keep their defaults.
\<close>

definition cors_defaults :: cors_config where
  "cors_defaults =
     [(lit ''*'', \<lparr>allow_credentials = False, expose_headers = ''*'', allow_headers = ''*'',
                  max_age = None\<rparr>)]"

text \<open>
  \<open>aiohttp.web.static(prefix, path)\<close>: files under \<open>path\<close> for GET and HEAD. The
  directory is taken to exist; where it does not, adding the route raises ValueError and
  the process ends before anything else happens.
\<close>

definition static :: "string \<Rightarrow> string \<Rightarrow> route" where
  "static prefix dir =
     \<lparr>methods = [''GET'', ''HEAD''], pattern = lit prefix, is_prefix = True,
      calls = StaticFiles dir, cors = None\<rparr>"

definition add_routes :: "Application \<Rightarrow> route list \<Rightarrow> Application" where
  "add_routes app rs = app\<lparr>routes := routes app @ rs\<rparr>"

text \<open>
  \<open>cors.add(app.router.add_resource(path))\<close> adds the resource and, for it, the
  handler of preflight requests; \<open>cors.add(resource.add_route(method, handler))\<close> adds
  the route with the configuration \<open>cors\<close> was set up with.
\<close>

definition cors_add_resource :: "cors_config \<Rightarrow> Application \<Rightarrow> string \<Rightarrow> Application" where
  "cors_add_resource defaults app p =
     app\<lparr>routes := routes app @
       [\<lparr>methods = [''OPTIONS''], pattern = lit p, is_prefix = False, calls = Preflight,
         cors = Some defaults\<rparr>]\<rparr>"

definition cors_add_route ::
  "cors_config \<Rightarrow> Application \<Rightarrow> string \<Rightarrow> string \<Rightarrow> route_handler \<Rightarrow> Application" where
  "cors_add_route defaults app p m h =
     app\<lparr>routes := routes app @
       [\<lparr>methods = [m], pattern = lit p, is_prefix = False, calls = h, cors = Some defaults\<rparr>]\<rparr>"

definition make_app :: "Server \<Rightarrow> Application" where
  "make_app server =
     (let app = \<lparr>routes = []\<rparr>;
          app = add_routes app [static ''/page'' ''/home/ubuntu/theClimberDiary''];
          app = cors_add_resource cors_defaults app ''/ping'';
          app = cors_add_route cors_defaults app ''/ping'' ''GET'' HandlePing
      in app)"

text \<open>
  The router: the first route whose method and path fit the request. A prefix fits the
  path itself and every path that continues it after a slash.
\<close>

definition fits :: "route \<Rightarrow> Request \<Rightarrow> bool" where
  "fits r request =
     (http_method request \<in> set (methods r) \<and>
      (if is_prefix r
       then path request = pattern r \<or> take (length (pattern r) + 1) (path request) = pattern r @ [47]
       else path request = pattern r))"

fun resolve :: "route list \<Rightarrow> Request \<Rightarrow> route option" where
  "resolve [] request = None"
| "resolve (r # rs) request = (if fits r request then Some r else resolve rs request)"

text \<open>
  The options from which \<open>aiohttp_cors\<close> writes the CORS headers of the response to
  a request, or \<open>None\<close> when the response gets no CORS header. A configuration
  answers for the \<open>Origin\<close> of the request, or for \<open>*\<close>.

  A request that fits no route, or has no \<open>Origin\<close> header, gets none. A request
  that is not a preflight gets the options of the configuration of its route, if the route
  has one, whatever its handler returns or raises. A preflight request (one that goes to
  the preflight handler) must name a method in \<open>Access-Control-Request-Method\<close>, spelt
  as it was registered; the options registered here allow no method by themselves, so the
  handler looks for a route of the same resource with that method that was passed to
  \<open>cors.add\<close> and answers from its configuration. Without the header, or without such
  a route, it answers 403 and the response has no CORS header.
\<close>

definition cors_lookup :: "cors_config \<Rightarrow> py_str \<Rightarrow> ResourceOptions option" where
  "cors_lookup config origin =
     (case map_of config origin of
        Some opts \<Rightarrow> Some opts
      | None \<Rightarrow> map_of config (lit ''*''))"

definition preflight_config :: "route list \<Rightarrow> route \<Rightarrow> py_str \<Rightarrow> cors_config option" where
  "preflight_config rs r m =
     (case find (\<lambda>r'. pattern r' = pattern r \<and> is_prefix r' = is_prefix r
                       \<and> calls r' \<noteq> Preflight \<and> m \<in> set (map lit (methods r'))) rs of
        None \<Rightarrow> None
      | Some r' \<Rightarrow> cors r')"

definition cors_options :: "Application \<Rightarrow> Request \<Rightarrow> ResourceOptions option" where
  "cors_options app request =
     (case resolve (routes app) request of
        None \<Rightarrow> None
      | Some r \<Rightarrow>
          (case headers_get (headers request) (lit ''Origin'') of
             None \<Rightarrow> None
           | Some origin \<Rightarrow>
               (case calls r of
                  Preflight \<Rightarrow>
                    (case headers_get (headers request) (lit ''Access-Control-Request-Method'') of
                       None \<Rightarrow> None
                     | Some m \<Rightarrow>
                         (case preflight_config (routes app) r m of
                            None \<Rightarrow> None
                          | Some config \<Rightarrow> cors_lookup config origin))
                | _ \<Rightarrow>
                    (case cors r of
                       None \<Rightarrow> None
                     | Some config \<Rightarrow> cors_lookup config origin))))"

section \<open>The listener's scope\<close>

text \<open>
  What the process reads from its surroundings: the environment variables, which files
  can be read, which of them hold well-formed certificates or keys, which key belongs to
  which certificate chain, which ports can be bound, and the process identifier.
\<close>

record os_env =
  environ :: "string \<Rightarrow> string option"
  readable :: "string \<Rightarrow> bool"
  well_formed :: "string \<Rightarrow> bool"
  key_matches :: "string \<Rightarrow> string \<Rightarrow> bool"
  port_free :: "nat \<Rightarrow> bool"
  getpid :: nat

record ssl_context =
  ca_file :: "string option"
  cert_chain :: "(string \<times> string) option"

text \<open>
  \<open>ssl.create_default_context(ssl.Purpose.CLIENT_AUTH, cafile=...)\<close> loads the file
  when one is given (\<open>None\<close> and the empty string count as not given) and fails when it
  cannot be read or holds no certificate.
\<close>

definition create_default_context :: "os_env \<Rightarrow> string option \<Rightarrow> exc + ssl_context" where
  "create_default_context env cafile =
     (case cafile of
        None \<Rightarrow> Inr \<lparr>ca_file = None, cert_chain = None\<rparr>
      | Some p \<Rightarrow>
          if p = [] then Inr \<lparr>ca_file = None, cert_chain = None\<rparr>
          else if \<not> readable env p then Inl OSError
          else if \<not> well_formed env p then Inl SSLError
          else Inr \<lparr>ca_file = Some p, cert_chain = None\<rparr>)"

text \<open>
  \<open>SSLContext.load_cert_chain(certfile, keyfile)\<close> reads the chain, then the key, then
  checks that the key belongs to the chain.
\<close>

definition load_cert_chain :: "os_env \<Rightarrow> ssl_context \<Rightarrow> string \<Rightarrow> string \<Rightarrow> exc + ssl_context" where
  "load_cert_chain env ctx certfile keyfile =
     (if \<not> readable env certfile then Inl OSError
      else if \<not> well_formed env certfile then Inl SSLError
      else if \<not> readable env keyfile then Inl OSError
      else if \<not> well_formed env keyfile then Inl SSLError
      else if \<not> key_matches env certfile keyfile then Inl SSLError
      else Inr (ctx\<lparr>cert_chain := Some (certfile, keyfile)\<rparr>))"

text \<open>
  The state of the process: the logging module, the ports it listens on, and what the
  runner and the event loop have done, in order.
\<close>

datatype effect = RunnerSetup | SiteStart nat bool | RunnerCleanup | Sleep

record proc =
  log :: logging
  bound :: "nat set"
  effects :: "effect list"

definition start_message :: "os_env \<Rightarrow> nat \<Rightarrow> py_str" where
  "start_message env port =
     lit ''Starting server in pid '' @ decimal (int (getpid env)) @ lit '' binding port ''
       @ decimal (int port)"

definition shutdown_message :: "os_env \<Rightarrow> nat \<Rightarrow> py_str" where
  "shutdown_message env port =
     lit ''Shutting down server in pid '' @ decimal (int (getpid env)) @ lit '' binding port ''
       @ decimal (int port)"

text \<open>
  \<open>with_application_server\<close>, with the block of the caller's \<open>async with\<close> as
  \<open>block\<close>: a function on the state that returns the exception the block ends with
  (\<open>CancelledError\<close> for a cancellation) or \<open>None\<close> when it returns. The result is
  the exception that leaves the \<open>async with\<close>, if any. The awaits of the
  \<open>finally\<close> part are taken to complete: a second cancellation that arrives while
  they run is not modelled.
\<close>

definition with_application_server ::
  "os_env \<Rightarrow> Application \<Rightarrow> nat \<Rightarrow> bool \<Rightarrow> (proc \<Rightarrow> exc option \<times> proc) \<Rightarrow> proc
     \<Rightarrow> exc option \<times> proc" where
  "with_application_server env app port use_ssl block st =
     (case
        (if use_ssl then
           (case create_default_context env (environ env ''SSL_CA_PATH'') of
              Inl e \<Rightarrow> Inl e
            | Inr ctx \<Rightarrow>
                (case environ env ''SSL_CERT_PATH'' of
                   None \<Rightarrow> Inl KeyError
                 | Some certfile \<Rightarrow>
                     (case environ env ''SSL_PRIVATE_KEY_PATH'' of
                        None \<Rightarrow> Inl KeyError
                      | Some keyfile \<Rightarrow>
                          (case load_cert_chain env ctx certfile keyfile of
                             Inl e \<Rightarrow> Inl e
                           | Inr ctx' \<Rightarrow> Inr (Some ctx')))))
         else Inr None)
      of
        Inl e \<Rightarrow> (Some e, st)
      | Inr ssl_ctx \<Rightarrow>
          (let st1 = st\<lparr>effects := effects st @ [RunnerSetup]\<rparr> in
           if \<not> port_free env port then (Some OSError, st1)
           else
             (let st2 = st1\<lparr>bound := insert port (bound st1),
                             effects := effects st1 @ [SiteStart port (ssl_ctx \<noteq> None)]\<rparr>;
                  st3 = st2\<lparr>log := logging_info (start_message env port) (log st2)\<rparr>;
                  (raised, st4) = block st3;
                  st5 = st4\<lparr>log := logging_info (shutdown_message env port) (log st4)\<rparr>;
                  st6 = st5\<lparr>bound := bound st5 - {port},
                             effects := effects st5 @ [RunnerCleanup]\<rparr>;
                  st7 = st6\<lparr>effects := effects st6 @ [Sleep]\<rparr>
              in (raised, st7))))"

section \<open>The process\<close>

text \<open>
  The event loop while the block of \<open>run\<close> waits: it takes the requests in turn and
  calls the handler of the route each one fits. Responses go to the client and are not
  kept; the static handler and the preflight handler write neither the server object nor
  the log of this program.
\<close>

fun serve :: "interp \<Rightarrow> Application \<Rightarrow> Request list \<Rightarrow> Server \<Rightarrow> logging \<Rightarrow> Server \<times> logging" where
  "serve ip app [] self L = (self, L)"
| "serve ip app (request # rest) self L =
     (case resolve (routes app) request of
        None \<Rightarrow> serve ip app rest self L
      | Some r \<Rightarrow>
          (case calls r of
             HandlePing \<Rightarrow>
               (let (out, self', L') = handle_ping ip self request L in serve ip app rest self' L')
           | StaticFiles dir \<Rightarrow> serve ip app rest self L
           | Preflight \<Rightarrow> serve ip app rest self L))"

text \<open>
  \<open>run\<close>: \<open>event.wait()\<close> never returns, so the block ends when the task is
  cancelled, after the requests that arrived until then. A process that is never
  interrupted does not leave \<open>run\<close>.
\<close>

definition run :: "interp \<Rightarrow> os_env \<Rightarrow> Request list \<Rightarrow> proc \<Rightarrow> exc option \<times> proc" where
  "run ip env requests st =
     (let server = Server_init;
          app = make_app server
      in with_application_server env app 443 True
           (\<lambda>s. (Some CancelledError, s\<lparr>log := snd (serve ip app requests server (log s))\<rparr>))
           st)"

text \<open>
  The lines under \<open>if __name__ == '__main__'\<close> that set the logger up: the level of the
  root logger, and a file handler with its level and formatter. \<open>FileHandler\<close> opens
  its file for appending, which creates it. The source never passes the handler to
  \<open>logger.addHandler\<close>, so the function returns it beside the state and the root logger
  has the handlers it had.
\<close>

definition FileHandler :: "string \<Rightarrow> logging \<Rightarrow> log_handler \<times> logging" where
  "FileHandler p L =
     (\<lparr>target = LogFile p, handler_level = NOTSET, fmt = ''%(message)s''\<rparr>,
      L\<lparr>files := (files L)(p \<mapsto> (case files L p of None \<Rightarrow> [] | Some ls \<Rightarrow> ls))\<rparr>)"

definition set_up_logger :: "logging \<Rightarrow> log_handler \<times> logging" where
  "set_up_logger L =
     (let L1 = L\<lparr>root_level := DEBUG\<rparr>;
          (file_handler, L2) = FileHandler ''log.log'' L1;
          file_handler = file_handler\<lparr>handler_level := DEBUG\<rparr>;
          file_handler = file_handler\<lparr>fmt := ''%(asctime)s %(levelname)s %(message)s''\<rparr>
      in (file_handler, L2))"

definition main :: "interp \<Rightarrow> os_env \<Rightarrow> Request list \<Rightarrow> (string \<Rightarrow> log_line list option)
    \<Rightarrow> exc option \<times> proc" where
  "main ip env requests fs =
     (let (file_handler, L) = set_up_logger (logging_init fs)
      in run ip env requests \<lparr>log = L, bound = {}, effects = []\<rparr>)"

section \<open>The integer literals that the handler's contract speaks of\<close>

text \<open>
  The words of the contract, to compare \<open>int\<close> with: a string is an integer literal
  when it is white space, an optional sign, digits with single underscores between them
  (Python's \<open>digitpart ::= digit (["_"] digit)*\<close>), and white space. Its value is
  read off the digits.
\<close>

inductive digitpart :: "py_str \<Rightarrow> bool" where
  one_digit: "is_digit c \<Longrightarrow> digitpart [c]"
| more_digits: "is_digit c \<Longrightarrow> digitpart s \<Longrightarrow> digitpart (c # s)"
| underscore: "is_digit c \<Longrightarrow> digitpart s \<Longrightarrow> digitpart (c # 95 # s)"

code_pred digitpart .

definition digit_chars :: "py_str \<Rightarrow> nat list" where
  "digit_chars s = map (\<lambda>c. c - 48) (filter is_digit s)"

definition int_literal :: "py_str \<Rightarrow> py_str \<Rightarrow> py_str \<Rightarrow> bool" where
  "int_literal s sg ds =
     (\<exists>ws1 ws2. s = ws1 @ sg @ ds @ ws2 \<and> list_all Py_ISSPACE ws1 \<and> list_all Py_ISSPACE ws2
        \<and> (sg = [] \<or> sg = [43] \<or> sg = [45]) \<and> digitpart ds)"

definition literal_value :: "py_str \<Rightarrow> py_str \<Rightarrow> int" where
  "literal_value sg ds = (if sg = [45] then - 1 else 1) * int (digits_value (digit_chars ds))"

definition stops :: "py_str \<Rightarrow> bool" where
  "stops rest = (case rest of [] \<Rightarrow> True | c # _ \<Rightarrow> \<not> is_digit c \<and> c \<noteq> 95)"

text \<open>
  The outcome that the contract asks for on a bad request: a response whose status is a
  client error.
\<close>

definition client_error :: "exc + Response \<Rightarrow> bool" where
  "client_error out = (case out of Inl e \<Rightarrow> False | Inr r \<Rightarrow> 400 \<le> status r \<and> status r < 500)"

text \<open>
  The TLS material as the contract speaks of it. It is bad when the path of the
  certificate chain or of the private key is missing from the environment, one of the
  two files cannot be read, or the key does not belong to the chain. It is good when
  both paths are set, both files can be read and are well formed, the key belongs to the
  chain, and the CA bundle, if one is named, can be read and is well formed.
\<close>

definition tls_material_bad :: "os_env \<Rightarrow> bool" where
  "tls_material_bad env =
     (case environ env ''SSL_CERT_PATH'' of
        None \<Rightarrow> True
      | Some certfile \<Rightarrow>
          (case environ env ''SSL_PRIVATE_KEY_PATH'' of
             None \<Rightarrow> True
           | Some keyfile \<Rightarrow>
               \<not> readable env certfile \<or> \<not> readable env keyfile
               \<or> \<not> key_matches env certfile keyfile))"

definition tls_material_good :: "os_env \<Rightarrow> bool" where
  "tls_material_good env =
     ((case environ env ''SSL_CA_PATH'' of
         None \<Rightarrow> True
       | Some p \<Rightarrow> p = [] \<or> (readable env p \<and> well_formed env p))
      \<and> (case environ env ''SSL_CERT_PATH'' of
           None \<Rightarrow> False
         | Some certfile \<Rightarrow>
             (case environ env ''SSL_PRIVATE_KEY_PATH'' of
                None \<Rightarrow> False
              | Some keyfile \<Rightarrow>
                  readable env certfile \<and> well_formed env certfile
                  \<and> readable env keyfile \<and> well_formed env keyfile
                  \<and> key_matches env certfile keyfile)))"

section \<open>Example inputs\<close>

text \<open>
  An interpreter with the default digit limit and a part of the Unicode database (all its
  white space from code point 127 upwards, and the Arabic-Indic digits), and a request
  for the ping route with the given header fields.
\<close>

definition example_interp :: interp where
  "example_interp =
     \<lparr>max_str_digits = 4300,
      unicode_isspace = (\<lambda>c. c \<in> {133, 160, 5760, 8232, 8233, 8239, 8287, 12288} \<or> (8192 \<le> c \<and> c \<le> 8202)),
      unicode_todecimal = (\<lambda>c. if 1632 \<le> c \<and> c \<le> 1641 then Some (c - 1632) else None)\<rparr>"

definition ping_request :: "(py_str \<times> py_str) list \<Rightarrow> Request" where
  "ping_request hs = \<lparr>http_method = ''GET'', path = lit ''/ping'', headers = hs\<rparr>"

text \<open>
  An environment with a certificate chain and its key in place and every port free, the
  state in which a process starts, a block that ends in a given way without doing
  anything, a request for a file of the static route, and a preflight request for the
  ping resource with the given header fields.
\<close>

definition example_env :: os_env where
  "example_env =
     \<lparr>environ = [''SSL_CERT_PATH'' \<mapsto> ''/etc/ssl/server.pem'',
                 ''SSL_PRIVATE_KEY_PATH'' \<mapsto> ''/etc/ssl/server.key''],
      readable = (\<lambda>p. p \<in> {''/etc/ssl/server.pem'', ''/etc/ssl/server.key''}),
      well_formed = (\<lambda>p. p \<in> {''/etc/ssl/server.pem'', ''/etc/ssl/server.key''}),
      key_matches = (\<lambda>c k. c = ''/etc/ssl/server.pem'' \<and> k = ''/etc/ssl/server.key''),
      port_free = (\<lambda>p. True),
      getpid = 4242\<rparr>"

definition proc_init :: proc where
  "proc_init = \<lparr>log = logging_init Map.empty, bound = {}, effects = []\<rparr>"

definition block_raising :: "exc option \<Rightarrow> proc \<Rightarrow> exc option \<times> proc" where
  "block_raising e st = (e, st)"

definition page_request :: Request where
  "page_request =
     \<lparr>http_method = ''GET'', path = lit ''/page/index.html'',
      headers = [(lit ''Origin'', lit ''https://example.org'')]\<rparr>"

definition preflight_request :: "(py_str \<times> py_str) list \<Rightarrow> Request" where
  "preflight_request hs = \<lparr>http_method = ''OPTIONS'', path = lit ''/ping'', headers = hs\<rparr>"

text \<open>
  The root logger writes to standard error only.
\<close>

definition stderr_only :: "logging \<Rightarrow> bool" where
  "stderr_only L = list_all (\<lambda>h. target h = Stderr) (root_handlers L)"

section \<open>The integer conversions agree with the literals\<close>

lemma not_digit_95 [simp]: "\<not> is_digit 95"
  by (simp add: is_digit_def)

lemma digitpart_hd: "digitpart s \<Longrightarrow> \<exists>c cs. s = c # cs \<and> is_digit c"
  by (induction rule: digitpart.induct) auto

lemma digit_chars_simps [simp]:
  "digit_chars [] = []"
  "is_digit c \<Longrightarrow> digit_chars (c # s) = (c - 48) # digit_chars s"
  "\<not> is_digit c \<Longrightarrow> digit_chars (c # s) = digit_chars s"
  by (simp_all add: digit_chars_def)

lemma digitpart_digit_chars: "digitpart s \<Longrightarrow> digit_chars s \<noteq> []"
  by (induction rule: digitpart.induct) auto

lemma scan_digits_complete:
  "digitpart ds \<Longrightarrow> stops rest \<Longrightarrow> scan_digits prev (ds @ rest) = Some (digit_chars ds, rest)"
proof (induction arbitrary: prev rule: digitpart.induct)
  case (one_digit c)
  then show ?case
    by (cases rest) (auto simp: stops_def)
next
  case (more_digits c s)
  then show ?case by auto
next
  case (underscore c s)
  then show ?case by auto
qed

lemma scan_digits_sound:
  "scan_digits prev s = Some (ds, rest) \<Longrightarrow>
     \<exists>b. s = b @ rest \<and> ds = digit_chars b \<and> stops rest \<and>
       (b = [] \<and> prev \<noteq> 95 \<or> digitpart b \<or> (\<exists>b'. b = 95 # b' \<and> digitpart b' \<and> prev \<noteq> 95))"
proof (induction s arbitrary: prev ds)
  case Nil
  then show ?case by (auto simp: stops_def split: if_splits)
next
  case (Cons c cs)
  show ?case
  proof (cases "c = 95")
    case True
    with Cons.prems have p: "prev \<noteq> 95" and sc: "scan_digits 95 cs = Some (ds, rest)"
      by (auto split: if_splits)
    from Cons.IH[OF sc] obtain b where b: "cs = b @ rest" "ds = digit_chars b" "stops rest" "digitpart b"
      by auto
    show ?thesis
      by (rule exI[of _ "95 # b"]) (use True b p in auto)
  next
    case False
    show ?thesis
    proof (cases "is_digit c")
      case True
      with False Cons.prems obtain ds' where sc: "scan_digits c cs = Some (ds', rest)" and ds: "ds = (c - 48) # ds'"
        by (auto split: option.splits)
      from Cons.IH[OF sc] obtain b where b: "cs = b @ rest" "ds' = digit_chars b" "stops rest"
        and sh: "b = [] \<and> c \<noteq> 95 \<or> digitpart b \<or> (\<exists>b'. b = 95 # b' \<and> digitpart b' \<and> c \<noteq> 95)"
        by auto
      from sh True have "digitpart (c # b)"
        by (auto intro: digitpart.intros)
      then show ?thesis
        by (intro exI[of _ "c # b"]) (use True b ds in auto)
    next
      case nd: False
      with False Cons.prems have "prev \<noteq> 95" "ds = []" "rest = c # cs"
        by (auto split: if_splits)
      then show ?thesis
        by (intro exI[of _ "[]"]) (use nd False in \<open>auto simp: stops_def\<close>)
    qed
  qed
qed

lemma space_not_digit: "Py_ISSPACE c \<Longrightarrow> \<not> is_digit c \<and> c \<noteq> 95 \<and> c \<noteq> 43 \<and> c \<noteq> 45"
  by (auto simp: Py_ISSPACE_def is_digit_def)

lemma digit_not_space: "is_digit c \<Longrightarrow> \<not> Py_ISSPACE c \<and> c \<noteq> 43 \<and> c \<noteq> 45 \<and> c \<noteq> 95"
  by (auto simp: Py_ISSPACE_def is_digit_def)

lemma stops_spaces: "list_all Py_ISSPACE ws \<Longrightarrow> stops ws"
  by (cases ws) (auto simp: stops_def dest: space_not_digit)

lemma dropWhile_spaces: "list_all Py_ISSPACE ws \<Longrightarrow> dropWhile Py_ISSPACE (ws @ s) = dropWhile Py_ISSPACE s"
  by (induction ws) auto

lemma dropWhile_all_spaces: "list_all Py_ISSPACE ws \<Longrightarrow> dropWhile Py_ISSPACE ws = []"
  by (induction ws) auto

lemma dropWhile_empty_spaces: "dropWhile Py_ISSPACE ws = [] \<Longrightarrow> list_all Py_ISSPACE ws"
  by (induction ws) (auto split: if_splits)

lemma take_sign_literal:
  assumes "sg = [] \<or> sg = [43] \<or> sg = [45]" and "digitpart ds"
  shows "take_sign (sg @ ds @ ws) = (if sg = [45] then - 1 else 1, ds @ ws)"
proof -
  from assms(2) obtain c cs where "ds = c # cs" "is_digit c"
    using digitpart_hd by blast
  with assms(1) show ?thesis
    by (auto simp: take_sign_def dest: digit_not_space)
qed

lemma dropWhile_literal:
  assumes "sg = [] \<or> sg = [43] \<or> sg = [45]" and "digitpart ds"
  shows "dropWhile Py_ISSPACE (sg @ ds @ ws) = sg @ ds @ ws"
proof -
  from assms(2) obtain c cs where "ds = c # cs" "is_digit c"
    using digitpart_hd by blast
  with assms(1) show ?thesis
    by (auto simp: Py_ISSPACE_def dest: digit_not_space)
qed

lemma PyLong_FromString_literal:
  assumes "int_literal s sg ds"
  shows "PyLong_FromString ip s =
     (if exceeds_max_str_digits ip (length (digit_chars ds)) (length (digit_chars ds)) then None
      else Some (literal_value sg ds))"
proof -
  from assms obtain ws1 ws2 where s: "s = ws1 @ sg @ ds @ ws2"
    and ws: "list_all Py_ISSPACE ws1" "list_all Py_ISSPACE ws2"
    and sg: "sg = [] \<or> sg = [43] \<or> sg = [45]" and ds: "digitpart ds"
    by (auto simp: int_literal_def)
  have d: "dropWhile Py_ISSPACE s = sg @ ds @ ws2"
    using ws(1) sg ds by (simp add: s dropWhile_spaces dropWhile_literal)
  have t: "take_sign (sg @ ds @ ws2) = (if sg = [45] then - 1 else 1, ds @ ws2)"
    using sg ds by (rule take_sign_literal)
  have sc: "scan_digits 0 (ds @ ws2) = Some (digit_chars ds, ws2)"
    using ds ws(2) by (simp add: scan_digits_complete stops_spaces)
  have hd: "take 1 (ds @ ws2) \<noteq> [95]"
    using digitpart_hd[OF ds] by auto
  have ne: "digit_chars ds \<noteq> []"
    using ds by (rule digitpart_digit_chars)
  show ?thesis
    unfolding PyLong_FromString_def d t
    using hd ne ws(2) by (simp add: sc dropWhile_all_spaces literal_value_def)
qed

lemma take_sign_cases:
  assumes "take_sign s1 = (sign, s2)"
  obtains sg where "s1 = sg @ s2" "sg = [] \<or> sg = [43] \<or> sg = [45]" "sign = (if sg = [45] then - 1 else 1)"
proof (cases s1)
  case Nil
  with assms that[of "[]"] show ?thesis by (auto simp: take_sign_def)
next
  case (Cons c cs)
  with assms that[of "[]"] that[of "[43]"] that[of "[45]"] show ?thesis
    by (auto simp: take_sign_def split: if_splits)
qed

lemma PyLong_FromString_Some:
  assumes "PyLong_FromString ip s = Some n"
  shows "\<exists>sg ds. int_literal s sg ds \<and> n = literal_value sg ds"
proof -
  obtain sign s2 where t: "take_sign (dropWhile Py_ISSPACE s) = (sign, s2)"
    by (cases "take_sign (dropWhile Py_ISSPACE s)")
  from assms t obtain dv rest where u: "take 1 s2 \<noteq> [95]"
    and sc: "scan_digits 0 s2 = Some (dv, rest)" and dv: "dv \<noteq> []"
    and rest: "dropWhile Py_ISSPACE rest = []" and n: "n = sign * int (digits_value dv)"
    by (auto simp: PyLong_FromString_def split: if_splits option.splits)
  from take_sign_cases[OF t] obtain sg where sg: "dropWhile Py_ISSPACE s = sg @ s2"
    "sg = [] \<or> sg = [43] \<or> sg = [45]" "sign = (if sg = [45] then - 1 else 1)"
    by blast
  from scan_digits_sound[OF sc] obtain b where b: "s2 = b @ rest" "dv = digit_chars b"
    and sh: "b = [] \<or> digitpart b \<or> (\<exists>b'. b = 95 # b')"
    by auto
  from sh dv u b have dp: "digitpart b"
    by auto
  have "takeWhile Py_ISSPACE s @ dropWhile Py_ISSPACE s = s"
    by simp
  then have "s = takeWhile Py_ISSPACE s @ sg @ b @ rest"
    unfolding sg(1) b(1) by simp
  moreover have "list_all Py_ISSPACE (takeWhile Py_ISSPACE s)"
    by (induction s) auto
  moreover have "list_all Py_ISSPACE rest"
    using rest by (rule dropWhile_empty_spaces)
  ultimately have "int_literal s sg b"
    using sg(2) dp unfolding int_literal_def by blast
  moreover have "n = literal_value sg b"
    using n sg(3) b(2) by (simp add: literal_value_def)
  ultimately show ?thesis by blast
qed



lemma digits_value_snoc: "digits_value (ds @ [d]) = digits_value ds * 10 + d"
  by (simp add: digits_value_def)










lemma long_to_decimal_string_unlimited:
  "max_str_digits ip = 0 \<Longrightarrow> long_to_decimal_string ip n = Inr (decimal n)"
  by (simp add: long_to_decimal_string_def exceeds_max_str_digits_def)

lemma lit_simps [simp]: "lit [] = []" "lit (c # s) = of_char c # lit s"
  by (simp_all add: lit_def)

lemma dec_digits_small: "n < 10 \<Longrightarrow> dec_digits n = [n]"
  by (subst dec_digits.simps) simp

lemma decimal_small: "0 \<le> n \<Longrightarrow> n < 10 \<Longrightarrow> decimal n = [48 + nat n]"
  by (simp add: decimal_def dec_digits_small)

lemma long_to_decimal_string_short:
  "length (decimal n) \<le> 640 \<Longrightarrow> long_to_decimal_string ip n = Inr (decimal n)"
  by (simp add: long_to_decimal_string_def exceeds_max_str_digits_def)

section \<open>The handler in terms of the conversions\<close>

lemma fst_handle_ping:
  "fst (handle_ping ip self request L) =
     (case py_int ip (headers_get (headers request) (lit ''value'')) of
        Inl e \<Rightarrow> Inl e
      | Inr n \<Rightarrow> json_response ip (n + step self))"
  by (simp add: handle_ping_def Let_def split: sum.splits)

lemma handle_ping_self: "fst (snd (handle_ping ip self request L)) = self"
  by (simp add: handle_ping_def Let_def split: sum.splits)

lemma serve_self: "fst (serve ip app requests self L) = self"
proof (induction requests arbitrary: L)
  case Nil
  show ?case by simp
next
  case (Cons request rest)
  show ?case
  proof (cases "resolve (routes app) request")
    case None
    with Cons show ?thesis by simp
  next
    case (Some r)
    obtain out self' L' where h: "handle_ping ip self request L = (out, self', L')"
      by (cases "handle_ping ip self request L")
    with handle_ping_self[of ip self request L] have "self' = self"
      by simp
    with Cons Some h show ?thesis
      by (cases "calls r") simp_all
  qed
qed

lemma py_int_error: "py_int ip v = Inl e \<Longrightarrow> e = (case v of None \<Rightarrow> TypeError | Some s \<Rightarrow> ValueError)"
  by (auto simp: py_int_def split: option.splits)

lemma headers_get_None:
  "headers_get hs key = None \<longleftrightarrow> (\<forall>(name, v)\<in>set hs. map ascii_lower name \<noteq> map ascii_lower key)"
proof (induction hs)
  case Nil
  show ?case by simp
next
  case (Cons x hs)
  then show ?case by (cases x) simp
qed

lemma digitpart_nines: "0 < n \<Longrightarrow> digitpart (replicate n 57)"
proof (induction n)
  case 0
  then show ?case by simp
next
  case (Suc n)
  show ?case
  proof (cases "n = 0")
    case True
    then show ?thesis by (simp add: one_digit is_digit_def)
  next
    case False
    with Suc show ?thesis by (simp add: more_digits is_digit_def)
  qed
qed

lemma digit_chars_nines: "digit_chars (replicate n 57) = replicate n 9"
  by (induction n) (simp_all add: is_digit_def)

lemma digits_value_nines: "int (digits_value (replicate n 9)) = 10 ^ n - 1"
proof (induction n)
  case 0
  show ?case by (simp add: digits_value_def)
next
  case (Suc n)
  have e: "replicate (Suc n) (9::nat) = replicate n 9 @ [9]"
    by (simp add: replicate_append_same)
  show ?case
    unfolding e digits_value_snoc using Suc by simp
qed

lemma PyLong_FromString_nines:
  assumes "0 < n" and "\<not> exceeds_max_str_digits ip n n"
  shows "PyLong_FromString ip (replicate n 57) = Some (10 ^ n - 1)"
proof -
  have "int_literal (replicate n 57) [] (replicate n 57)"
    unfolding int_literal_def using assms(1)
    by (intro exI[of _ "[]"]) (simp add: digitpart_nines)
  from PyLong_FromString_literal[OF this, of ip] assms(2) show ?thesis
    by (simp add: digit_chars_nines literal_value_def digits_value_nines)
qed

lemma length_dec_digits: "10 ^ k \<le> n \<Longrightarrow> n < 10 ^ Suc k \<Longrightarrow> length (dec_digits n) = Suc k"
proof (induction k arbitrary: n)
  case 0
  then show ?case by (subst dec_digits.simps) simp
next
  case (Suc k)
  define x :: nat where "x = 10 ^ k"
  have "1 \<le> x"
    by (simp add: x_def)
  moreover from Suc.prems have "10 * x \<le> n" "n < 100 * x"
    by (simp_all add: x_def)
  ultimately have "x \<le> n div 10" "n div 10 < 10 * x" "\<not> n < 10"
    by arith+
  then have "10 ^ k \<le> n div 10" "n div 10 < 10 ^ Suc k" "\<not> n < 10"
    by (simp_all add: x_def)
  then have "length (dec_digits (n div 10)) = Suc k"
    by (intro Suc.IH)
  with \<open>\<not> n < 10\<close> show ?case
    by (subst dec_digits.simps) simp
qed

lemma length_decimal_pow10: "0 < k \<Longrightarrow> length (decimal (10 ^ k - 1 + 2)) = Suc k"
proof -
  assume k: "0 < k"
  have "(10::nat) ^ k \<ge> 10" using k by (cases k) simp_all
  have n: "nat \<bar>10 ^ k - 1 + 2 :: int\<bar> = 10 ^ k + 1"
    by (simp add: nat_add_distrib nat_power_eq)
  have "length (dec_digits (10 ^ k + 1)) = Suc k"
    using \<open>10 \<le> 10 ^ k\<close> by (intro length_dec_digits) simp_all
  with n show ?thesis
    by (simp add: decimal_def)
qed

lemma py_int_literal:
  assumes "int_literal (transform_decimal_and_space ip s) sg ds"
  shows "py_int ip (Some s) =
     (if exceeds_max_str_digits ip (length (digit_chars ds)) (length (digit_chars ds))
      then Inl ValueError else Inr (literal_value sg ds))"
  by (simp add: py_int_def PyLong_FromString_literal[OF assms])

lemma py_int_not_literal:
  assumes "\<not> (\<exists>sg ds. int_literal (transform_decimal_and_space ip s) sg ds)"
  shows "py_int ip (Some s) = Inl ValueError"
proof (cases "PyLong_FromString ip (transform_decimal_and_space ip s)")
  case None
  then show ?thesis by (simp add: py_int_def)
next
  case (Some n)
  from PyLong_FromString_Some[OF this] assms show ?thesis by blast
qed

lemma int_literal_plus5: "int_literal (lit '' +5 '') [43] [53]"
  unfolding int_literal_def
  by (intro exI[of _ "[32]"]) (simp add: Py_ISSPACE_def one_digit is_digit_def)

lemma nines_rejected:
  assumes "0 < n" and "640 \<le> n" and "max_str_digits ip = n" and "step self = 2"
  shows "py_int ip (Some (replicate n 57)) = Inr (10 ^ n - 1) \<and>
     fst (handle_ping ip self (ping_request [(lit ''value'', replicate n 57)]) L) = Inl ValueError"
proof -
  have lim: "\<not> exceeds_max_str_digits ip n n"
    using assms(3) by (simp add: exceeds_max_str_digits_def)
  have tr: "transform_decimal_and_space ip (replicate n 57) = replicate n 57"
    by (simp add: transform_decimal_and_space_def list_all_iff)
  have p: "py_int ip (Some (replicate n 57)) = Inr (10 ^ n - 1)"
    by (simp add: py_int_def tr PyLong_FromString_nines[OF assms(1) lim])
  define m :: int where "m = 10 ^ n - 1 + 2"
  have len: "length (decimal m) = Suc n"
    unfolding m_def by (rule length_decimal_pow10[OF assms(1)])
  have "(0::int) \<le> 10 ^ n"
    by simp
  then have pos: "\<not> m < 0"
    unfolding m_def by linarith
  have "long_to_decimal_string ip m = Inl ValueError"
    using assms(2,3) by (simp add: long_to_decimal_string_def Let_def len pos exceeds_max_str_digits_def)
  then have "json_response ip (10 ^ n - 1 + step self) = Inl ValueError"
    unfolding m_def assms(4) by (simp only: json_response_def sum.case)
  moreover have "headers_get (headers (ping_request [(lit ''value'', replicate n 57)])) (lit ''value'')
      = Some (replicate n 57)"
    by (simp add: ping_request_def)
  ultimately show ?thesis
    using p by (simp add: fst_handle_ping)
qed

section \<open>What the ping handler returns\<close>



text \<open>
  C2, as the code has it. A request whose header \<open>value\<close> is present and is not
  accepted by \<open>int\<close> gets no response from the handler: ValueError leaves the
  handler. The handler has no branch that builds a client error response.
\<close>

theorem handle_ping_unparseable_raises:
  assumes "headers_get (headers request) (lit ''value'') = Some s"
    and "py_int ip (Some s) = Inl e"
  shows "fst (handle_ping ip self request L) = Inl ValueError"
  using assms py_int_error[OF assms(2)] by (simp add: fst_handle_ping)

theorem handle_ping_unparseable_raises_witness:
  "fst (handle_ping example_interp Server_init (ping_request [(lit ''value'', lit ''abc'')])
      (logging_init Map.empty)) = Inl ValueError"
  using handle_ping_unparseable_raises
    [of "ping_request [(lit ''value'', lit ''abc'')]" "lit ''abc''" example_interp ValueError
        Server_init "logging_init Map.empty"]
  by (simp add: ping_request_def ascii_lower_def py_int_def transform_decimal_and_space_def
      PyLong_FromString_def Py_ISSPACE_def take_sign_def is_digit_def)

text \<open>
  C2 as stated fails for the header \<open>value=abc\<close>: the outcome is the exception
  ValueError, not a response with a 4xx status.
\<close>

theorem handle_ping_abc_counterexample:
  "fst (handle_ping example_interp Server_init
          (ping_request [(lit ''Host'', lit ''localhost''), (lit ''value'', lit ''abc'')])
          (logging_init Map.empty)) = Inl ValueError
   \<and> \<not> client_error (fst (handle_ping example_interp Server_init
          (ping_request [(lit ''Host'', lit ''localhost''), (lit ''value'', lit ''abc'')])
          (logging_init Map.empty)))"
  by (simp add: fst_handle_ping client_error_def ping_request_def ascii_lower_def py_int_def
      transform_decimal_and_space_def PyLong_FromString_def Py_ISSPACE_def take_sign_def is_digit_def)

text \<open>
  C3, as the code has it. A request with no header named \<open>value\<close> (in any
  letter case) gets no response from the handler: \<open>int(None)\<close> raises TypeError,
  which leaves the handler.
\<close>

theorem handle_ping_no_value_raises:
  assumes "\<forall>(name, v)\<in>set (headers request). map ascii_lower name \<noteq> lit ''value''"
  shows "fst (handle_ping ip self request L) = Inl TypeError"
proof -
  from assms have "headers_get (headers request) (lit ''value'') = None"
    by (simp add: headers_get_None ascii_lower_def)
  then show ?thesis
    by (simp add: fst_handle_ping py_int_def)
qed

theorem handle_ping_no_value_raises_witness:
  "fst (handle_ping example_interp Server_init (ping_request [(lit ''Host'', lit ''localhost'')])
      (logging_init Map.empty)) = Inl TypeError"
  using handle_ping_no_value_raises
    [of "ping_request [(lit ''Host'', lit ''localhost'')]" example_interp Server_init
        "logging_init Map.empty"]
  by (simp add: ping_request_def ascii_lower_def)

text \<open>
  C3 as stated fails for a request without header fields: the outcome is the exception
  TypeError, not a response with a 4xx status.
\<close>

theorem handle_ping_no_value_counterexample:
  "fst (handle_ping example_interp Server_init (ping_request []) (logging_init Map.empty))
     = Inl TypeError
   \<and> \<not> client_error (fst (handle_ping example_interp Server_init (ping_request [])
          (logging_init Map.empty)))"
  by (simp add: fst_handle_ping client_error_def ping_request_def py_int_def)

text \<open>
  C8. The handler does not write the server object: after every call, whatever the
  request and the outcome, the server is the one that was passed in, and so it is after
  any sequence of requests that the event loop serves; \<open>Server()\<close> sets the offset
  to 2.
\<close>

theorem handle_ping_keeps_server:
  "fst (snd (handle_ping ip self request L)) = self
   \<and> fst (serve ip app requests self L) = self
   \<and> step Server_init = 2"
  by (simp add: handle_ping_self serve_self Server_init_def)

text \<open>
  C9, as the code has it. For a request with the header \<open>value\<close>: if the string is
  an integer literal (after \<open>int\<close> has mapped Unicode white space and decimal digits to
  ASCII), the handler raises ValueError when the literal has more digits than the
  interpreter's limit, and otherwise returns what \<open>json_response\<close> makes of its value
  plus the offset: status 200 and the sum in base 10, or ValueError when the sum is beyond
  the digit limit. A string that is no integer literal raises ValueError.
\<close>

theorem handle_ping_accepts_literals:
  assumes "headers_get (headers request) (lit ''value'') = Some s"
  shows "(\<forall>sg ds. int_literal (transform_decimal_and_space ip s) sg ds \<longrightarrow>
            fst (handle_ping ip self request L) =
              (if exceeds_max_str_digits ip (length (digit_chars ds)) (length (digit_chars ds))
               then Inl ValueError
               else json_response ip (literal_value sg ds + step self)))
       \<and> ((\<nexists>sg ds. int_literal (transform_decimal_and_space ip s) sg ds) \<longrightarrow>
            fst (handle_ping ip self request L) = Inl ValueError)"
  using assms by (simp add: fst_handle_ping py_int_literal py_int_not_literal)

theorem handle_ping_accepts_literals_witness:
  "fst (handle_ping example_interp Server_init (ping_request [(lit ''value'', lit '' +5 '')])
      (logging_init Map.empty)) =
     Inr \<lparr>status = 200, content_type = ''application/json'', body = lit ''7''\<rparr>"
proof -
  have h: "headers_get (headers (ping_request [(lit ''value'', lit '' +5 '')])) (lit ''value'')
      = Some (lit '' +5 '')"
    by (simp add: ping_request_def)
  have t: "transform_decimal_and_space example_interp (lit '' +5 '') = lit '' +5 ''"
    by (simp add: transform_decimal_and_space_def)
  from handle_ping_accepts_literals[OF h, of example_interp Server_init "logging_init Map.empty"]
    int_literal_plus5
  show ?thesis
    unfolding t
    by (simp add: exceeds_max_str_digits_def is_digit_def literal_value_def digits_value_def
        json_response_def long_to_decimal_string_short decimal_small Server_init_def)
qed

text \<open>
  C9 as stated fails at the digit limit: with the default limit of 4300 digits, \<open>int\<close>
  parses the string of 4300 nines, and the handler still raises ValueError, because the
  sum has 4301 digits and \<open>json.dumps\<close> refuses to render it.
\<close>

theorem handle_ping_nines_counterexample:
  "py_int example_interp (Some (replicate 4300 57)) = Inr (10 ^ 4300 - 1) \<and>
   fst (handle_ping example_interp Server_init (ping_request [(lit ''value'', replicate 4300 57)])
         (logging_init Map.empty)) = Inl ValueError"
proof -
  have a: "0 < (4300::nat)" "640 \<le> (4300::nat)"
    by simp_all
  have b: "max_str_digits example_interp = 4300"
    by (simp add: example_interp_def)
  have c: "step Server_init = 2"
    by (simp add: Server_init_def)
  show ?thesis
    by (rule nines_rejected[OF a b c])
qed

text \<open>
  C10. The outcome of the handler (the response with its status and body, or the
  exception) is the same for two requests whose \<open>value\<close> headers are equal and two
  servers with the same offset, on the same interpreter: the other header fields, the
  path and the state of the logging module do not matter.
\<close>

theorem handle_ping_deterministic:
  assumes "headers_get (headers r1) (lit ''value'') = headers_get (headers r2) (lit ''value'')"
    and "step self1 = step self2"
  shows "fst (handle_ping ip self1 r1 L1) = fst (handle_ping ip self2 r2 L2)"
  by (simp only: fst_handle_ping assms)

theorem handle_ping_deterministic_witness:
  "fst (handle_ping example_interp Server_init
          (ping_request [(lit ''Host'', lit ''localhost''), (lit ''value'', lit ''5'')])
          (logging_init Map.empty)) =
   fst (handle_ping example_interp Server_init
          \<lparr>http_method = ''GET'', path = lit ''/ping'',
             headers = [(lit ''VALUE'', lit ''5''), (lit ''value'', lit ''6'')]\<rparr>
          (logging_info (lit ''earlier'') (logging_init Map.empty)))"
  using handle_ping_deterministic
    [of "ping_request [(lit ''Host'', lit ''localhost''), (lit ''value'', lit ''5'')]"
        "\<lparr>http_method = ''GET'', path = lit ''/ping'',
             headers = [(lit ''VALUE'', lit ''5''), (lit ''value'', lit ''6'')]\<rparr>"
        Server_init Server_init example_interp "logging_init Map.empty"
        "logging_info (lit ''earlier'') (logging_init Map.empty)"]
  by (simp add: ping_request_def ascii_lower_def)

section \<open>The route table and CORS\<close>

lemma routes_make_app:
  "routes (make_app server) =
     [static ''/page'' ''/home/ubuntu/theClimberDiary'',
      \<lparr>methods = [''OPTIONS''], pattern = lit ''/ping'', is_prefix = False, calls = Preflight,
        cors = Some cors_defaults\<rparr>,
      \<lparr>methods = [''GET''], pattern = lit ''/ping'', is_prefix = False, calls = HandlePing,
        cors = Some cors_defaults\<rparr>]"
  by (simp add: make_app_def add_routes_def cors_add_resource_def cors_add_route_def)

lemma fits_static:
  "fits (static ''/page'' d) request \<longleftrightarrow>
     (http_method request = ''GET'' \<or> http_method request = ''HEAD'')
     \<and> (path request = lit ''/page'' \<or> take 6 (path request) = lit ''/page/'')"
proof -
  have l: "length (pattern (static ''/page'' d)) + 1 = 6"
    by (simp add: static_def)
  have p: "pattern (static ''/page'' d) @ [47] = lit ''/page/''"
    by (simp add: static_def)
  show ?thesis
    unfolding fits_def l p by (auto simp: static_def)
qed

lemma fits_exact:
  "fits \<lparr>methods = [m], pattern = p, is_prefix = False, calls = h, cors = c\<rparr> request \<longleftrightarrow>
     http_method request = m \<and> path request = p"
  by (auto simp: fits_def)

lemma ping_not_page: "path request = lit ''/ping'' \<Longrightarrow>
    \<not> (path request = lit ''/page'' \<or> take 6 (path request) = lit ''/page/'')"
  by simp

lemma cors_lookup_defaults:
  "cors_lookup cors_defaults origin =
     Some \<lparr>allow_credentials = False, expose_headers = ''*'', allow_headers = ''*'', max_age = None\<rparr>"
  by (simp add: cors_lookup_def cors_defaults_def)

lemma resolve_get_ping:
  assumes "path request = lit ''/ping''" and "http_method request = ''GET''"
  shows "resolve (routes (make_app server)) request =
     Some \<lparr>methods = [''GET''], pattern = lit ''/ping'', is_prefix = False, calls = HandlePing,
        cors = Some cors_defaults\<rparr>"
  using assms ping_not_page[of request]
  by (simp add: routes_make_app fits_static fits_exact)

lemma resolve_options_ping:
  assumes "path request = lit ''/ping''" and "http_method request = ''OPTIONS''"
  shows "resolve (routes (make_app server)) request =
     Some \<lparr>methods = [''OPTIONS''], pattern = lit ''/ping'', is_prefix = False, calls = Preflight,
        cors = Some cors_defaults\<rparr>"
  using assms ping_not_page[of request]
  by (simp add: routes_make_app fits_static fits_exact)

lemma preflight_config_ping:
  "preflight_config (routes (make_app server))
     \<lparr>methods = [''OPTIONS''], pattern = lit ''/ping'', is_prefix = False, calls = Preflight,
        cors = Some cors_defaults\<rparr> m =
     (if m = lit ''GET'' then Some cors_defaults else None)"
  by (auto simp: preflight_config_def routes_make_app static_def)

text \<open>
  C4, as the code has it. \<open>_make_app\<close> registers the permissive CORS options (any
  origin, every request header allowed, every response header exposed) for the ping
  resource and its GET route only. A GET request for \<open>/ping\<close> that names its origin
  is answered under these options, whatever the handler returns or raises, and so is a
  preflight request for \<open>/ping\<close> that names its origin and asks for GET. A preflight
  request for \<open>/ping\<close> that does not ask for a method, or asks for another method
  than GET, is refused and its response has no CORS header. A GET or HEAD request under
  \<open>/page\<close> goes to the static route, which has no CORS configuration, so that its
  response has no CORS header.
\<close>

theorem cors_registered_for_ping_only:
  "(path request = lit ''/ping'' \<and> http_method request = ''GET''
      \<and> headers_get (headers request) (lit ''Origin'') = Some origin
    \<longrightarrow> cors_options (make_app server) request =
          Some \<lparr>allow_credentials = False, expose_headers = ''*'', allow_headers = ''*'',
                 max_age = None\<rparr>)
   \<and> (path request = lit ''/ping'' \<and> http_method request = ''OPTIONS''
      \<and> headers_get (headers request) (lit ''Origin'') = Some origin
      \<and> headers_get (headers request) (lit ''Access-Control-Request-Method'') = Some (lit ''GET'')
    \<longrightarrow> cors_options (make_app server) request =
          Some \<lparr>allow_credentials = False, expose_headers = ''*'', allow_headers = ''*'',
                 max_age = None\<rparr>)
   \<and> (path request = lit ''/ping'' \<and> http_method request = ''OPTIONS''
      \<and> headers_get (headers request) (lit ''Access-Control-Request-Method'') \<noteq> Some (lit ''GET'')
    \<longrightarrow> cors_options (make_app server) request = None)
   \<and> ((path request = lit ''/page'' \<or> take 6 (path request) = lit ''/page/'')
      \<and> (http_method request = ''GET'' \<or> http_method request = ''HEAD'')
    \<longrightarrow> resolve (routes (make_app server)) request
          = Some (static ''/page'' ''/home/ubuntu/theClimberDiary'')
        \<and> cors_options (make_app server) request = None)"
proof (intro conjI impI)
  assume a: "path request = lit ''/ping'' \<and> http_method request = ''GET''
      \<and> headers_get (headers request) (lit ''Origin'') = Some origin"
  then have "resolve (routes (make_app server)) request =
     Some \<lparr>methods = [''GET''], pattern = lit ''/ping'', is_prefix = False, calls = HandlePing,
        cors = Some cors_defaults\<rparr>"
    by (intro resolve_get_ping) simp_all
  with a show "cors_options (make_app server) request =
          Some \<lparr>allow_credentials = False, expose_headers = ''*'', allow_headers = ''*'',
                 max_age = None\<rparr>"
    by (simp add: cors_options_def cors_lookup_defaults del: lit_simps)
next
  assume a: "path request = lit ''/ping'' \<and> http_method request = ''OPTIONS''
      \<and> headers_get (headers request) (lit ''Origin'') = Some origin
      \<and> headers_get (headers request) (lit ''Access-Control-Request-Method'') = Some (lit ''GET'')"
  then have "resolve (routes (make_app server)) request =
     Some \<lparr>methods = [''OPTIONS''], pattern = lit ''/ping'', is_prefix = False, calls = Preflight,
        cors = Some cors_defaults\<rparr>"
    by (intro resolve_options_ping) simp_all
  with a show "cors_options (make_app server) request =
          Some \<lparr>allow_credentials = False, expose_headers = ''*'', allow_headers = ''*'',
                 max_age = None\<rparr>"
    by (simp add: cors_options_def preflight_config_ping cors_lookup_defaults del: lit_simps)
next
  assume a: "path request = lit ''/ping'' \<and> http_method request = ''OPTIONS''
      \<and> headers_get (headers request) (lit ''Access-Control-Request-Method'') \<noteq> Some (lit ''GET'')"
  then have "resolve (routes (make_app server)) request =
     Some \<lparr>methods = [''OPTIONS''], pattern = lit ''/ping'', is_prefix = False, calls = Preflight,
        cors = Some cors_defaults\<rparr>"
    by (intro resolve_options_ping) simp_all
  with a show "cors_options (make_app server) request = None"
    by (auto simp: cors_options_def preflight_config_ping simp del: lit_simps split: option.splits)
next
  assume a: "(path request = lit ''/page'' \<or> take 6 (path request) = lit ''/page/'')
      \<and> (http_method request = ''GET'' \<or> http_method request = ''HEAD'')"
  then show r: "resolve (routes (make_app server)) request
          = Some (static ''/page'' ''/home/ubuntu/theClimberDiary'')"
    by (simp add: routes_make_app fits_static)
  show "cors_options (make_app server) request = None"
    by (simp add: cors_options_def r split: option.splits) (simp add: static_def)
qed

theorem cors_registered_for_ping_only_witness:
  "cors_options (make_app Server_init)
     (ping_request [(lit ''Origin'', lit ''https://example.org''), (lit ''value'', lit ''abc'')])
     = Some \<lparr>allow_credentials = False, expose_headers = ''*'', allow_headers = ''*'',
             max_age = None\<rparr>
   \<and> cors_options (make_app Server_init)
       (preflight_request [(lit ''Origin'', lit ''https://example.org''),
          (lit ''Access-Control-Request-Method'', lit ''GET'')])
     = Some \<lparr>allow_credentials = False, expose_headers = ''*'', allow_headers = ''*'',
             max_age = None\<rparr>
   \<and> cors_options (make_app Server_init)
       (preflight_request [(lit ''Origin'', lit ''https://example.org'')]) = None
   \<and> cors_options (make_app Server_init)
       (preflight_request [(lit ''Origin'', lit ''https://example.org''),
          (lit ''Access-Control-Request-Method'', lit ''POST'')]) = None
   \<and> cors_options (make_app Server_init)
       \<lparr>http_method = ''HEAD'', path = lit ''/page'',
        headers = [(lit ''Origin'', lit ''https://example.org'')]\<rparr> = None"
  using cors_registered_for_ping_only
    [of "ping_request [(lit ''Origin'', lit ''https://example.org''), (lit ''value'', lit ''abc'')]"
        "lit ''https://example.org''" Server_init]
    cors_registered_for_ping_only
    [of "preflight_request [(lit ''Origin'', lit ''https://example.org''),
          (lit ''Access-Control-Request-Method'', lit ''GET'')]"
        "lit ''https://example.org''" Server_init]
    cors_registered_for_ping_only
    [of "preflight_request [(lit ''Origin'', lit ''https://example.org'')]" "[]" Server_init]
    cors_registered_for_ping_only
    [of "preflight_request [(lit ''Origin'', lit ''https://example.org''),
          (lit ''Access-Control-Request-Method'', lit ''POST'')]" "[]" Server_init]
    cors_registered_for_ping_only
    [of "\<lparr>http_method = ''HEAD'', path = lit ''/page'',
        headers = [(lit ''Origin'', lit ''https://example.org'')]\<rparr>" "[]" Server_init]
  by (simp add: ping_request_def preflight_request_def ascii_lower_def)

text \<open>
  C4 as stated fails on the static route: a GET request for \<open>/page/index.html\<close>
  that names its origin goes to the static route, which was never passed to
  \<open>cors.add\<close>, and no CORS options apply to its response.
\<close>

theorem static_route_without_cors_counterexample:
  "resolve (routes (make_app Server_init)) page_request
     = Some (static ''/page'' ''/home/ubuntu/theClimberDiary'')
   \<and> cors (static ''/page'' ''/home/ubuntu/theClimberDiary'') = None
   \<and> cors_options (make_app Server_init) page_request = None"
  by (simp add: cors_options_def routes_make_app fits_static page_request_def)
    (simp add: static_def)

section \<open>Startup and shutdown of the listener\<close>

lemma tls_bad_not_good: "tls_material_bad env \<Longrightarrow> \<not> tls_material_good env"
  by (auto simp: tls_material_bad_def tls_material_good_def split: option.splits)

lemma startup_fails_without_tls:
  assumes "\<not> tls_material_good env"
  shows "\<exists>e. e \<in> {KeyError, OSError, SSLError} \<and>
           with_application_server env app port True block st = (Some e, st)"
  using assms
  by (auto simp: with_application_server_def tls_material_good_def create_default_context_def
      load_cert_chain_def split: option.splits)

lemma scope_entered:
  assumes "use_ssl \<longrightarrow> tls_material_good env" and "port_free env port"
  shows "with_application_server env app port use_ssl block st =
     (let st3 = st\<lparr>bound := insert port (bound st),
                     effects := effects st @ [RunnerSetup, SiteStart port use_ssl],
                     log := logging_info (start_message env port) (log st)\<rparr>;
          (raised, st4) = block st3
      in (raised, st4\<lparr>log := logging_info (shutdown_message env port) (log st4),
                      bound := bound st4 - {port},
                      effects := effects st4 @ [RunnerCleanup, Sleep]\<rparr>))"
  using assms
  by (auto simp: with_application_server_def tls_material_good_def create_default_context_def
      load_cert_chain_def Let_def split: option.splits prod.splits)

lemma example_env_good: "tls_material_good example_env"
  by (simp add: tls_material_good_def example_env_def)

text \<open>
  C6. With TLS enabled, when the path of the certificate chain or of the private key is
  missing, one of the two files cannot be read, or the key does not belong to the chain,
  \<open>with_application_server\<close> ends with an exception (KeyError, OSError or SSLError)
  and the state of the process is the one it started in: no runner was set up, no port
  was bound, the block of the caller did not run.
\<close>

theorem bad_tls_material_fails_before_bind:
  assumes "tls_material_bad env"
  shows "\<exists>e. e \<in> {KeyError, OSError, SSLError} \<and>
           with_application_server env app port True block st = (Some e, st)"
  using assms by (intro startup_fails_without_tls tls_bad_not_good)

theorem bad_tls_material_fails_before_bind_witness:
  "fst (with_application_server (example_env\<lparr>readable := (\<lambda>p. False)\<rparr>) (make_app Server_init)
          443 True (block_raising None) proc_init) \<noteq> None
   \<and> snd (with_application_server (example_env\<lparr>readable := (\<lambda>p. False)\<rparr>) (make_app Server_init)
          443 True (block_raising None) proc_init) = proc_init"
proof -
  have "tls_material_bad (example_env\<lparr>readable := (\<lambda>p. False)\<rparr>)"
    by (simp add: tls_material_bad_def example_env_def)
  from bad_tls_material_fails_before_bind[OF this, of "make_app Server_init" 443
      "block_raising None" proc_init]
  obtain e where "with_application_server (example_env\<lparr>readable := (\<lambda>p. False)\<rparr>)
      (make_app Server_init) 443 True (block_raising None) proc_init = (Some e, proc_init)"
    by blast
  then show ?thesis
    by simp
qed

text \<open>
  C7. When the scope has been entered (the TLS material is good if TLS is enabled, and
  the port could be bound), the block of the caller runs in a state where the port is
  bound, and however the block ends (by returning, by a cancellation, by any other
  exception) the scope ends the same way, after the runner's cleanup and then the short
  sleep; the port is not bound afterwards.
\<close>

theorem scope_exit_releases_port:
  assumes "use_ssl \<longrightarrow> tls_material_good env" and "port_free env port"
  shows "\<exists>st3. port \<in> bound st3
           \<and> effects st3 = effects st @ [RunnerSetup, SiteStart port use_ssl]
           \<and> fst (with_application_server env app port use_ssl block st) = fst (block st3)
           \<and> port \<notin> bound (snd (with_application_server env app port use_ssl block st))
           \<and> bound (snd (with_application_server env app port use_ssl block st))
               = bound (snd (block st3)) - {port}
           \<and> effects (snd (with_application_server env app port use_ssl block st))
               = effects (snd (block st3)) @ [RunnerCleanup, Sleep]"
proof -
  define st3 where "st3 = st\<lparr>bound := insert port (bound st),
                     effects := effects st @ [RunnerSetup, SiteStart port use_ssl],
                     log := logging_info (start_message env port) (log st)\<rparr>"
  obtain raised st4 where b: "block st3 = (raised, st4)"
    by (cases "block st3")
  have w: "with_application_server env app port use_ssl block st =
      (raised, st4\<lparr>log := logging_info (shutdown_message env port) (log st4),
                      bound := bound st4 - {port},
                      effects := effects st4 @ [RunnerCleanup, Sleep]\<rparr>)"
    unfolding scope_entered[OF assms] st3_def[symmetric] by (simp add: b)
  have "port \<in> bound st3" "effects st3 = effects st @ [RunnerSetup, SiteStart port use_ssl]"
    by (simp_all add: st3_def)
  then show ?thesis
    unfolding w by (intro exI[of _ st3]) (simp add: b)
qed

theorem scope_exit_releases_port_witness:
  "fst (with_application_server example_env (make_app Server_init) 443 True
          (block_raising (Some ValueError)) proc_init) = Some ValueError
   \<and> 443 \<notin> bound (snd (with_application_server example_env (make_app Server_init) 443 True
          (block_raising (Some ValueError)) proc_init))
   \<and> effects (snd (with_application_server example_env (make_app Server_init) 443 True
          (block_raising (Some ValueError)) proc_init))
       = [RunnerSetup, SiteStart 443 True, RunnerCleanup, Sleep]"
proof -
  have a: "True \<longrightarrow> tls_material_good example_env"
    by (simp add: example_env_good)
  have b: "port_free example_env 443"
    by (simp add: example_env_def)
  from scope_exit_releases_port[OF a b, of proc_init "make_app Server_init"
      "block_raising (Some ValueError)"]
  obtain st3 where "effects st3 = effects proc_init @ [RunnerSetup, SiteStart 443 True]"
    and "fst (with_application_server example_env (make_app Server_init) 443 True
          (block_raising (Some ValueError)) proc_init) = fst (block_raising (Some ValueError) st3)"
    and "443 \<notin> bound (snd (with_application_server example_env (make_app Server_init) 443 True
          (block_raising (Some ValueError)) proc_init))"
    and "effects (snd (with_application_server example_env (make_app Server_init) 443 True
          (block_raising (Some ValueError)) proc_init))
       = effects (snd (block_raising (Some ValueError) st3)) @ [RunnerCleanup, Sleep]"
    by blast
  then show ?thesis
    by (simp add: block_raising_def proc_init_def)
qed

section \<open>The log file\<close>

lemma emit_stderr:
  "target h = Stderr \<Longrightarrow>
     files (emit lvl msg h L) = files L \<and> root_handlers (emit lvl msg h L) = root_handlers L
     \<and> root_level (emit lvl msg h L) = root_level L"
  by (simp add: emit_def Let_def)

lemma fold_emit_stderr:
  "list_all (\<lambda>h. target h = Stderr) hs \<Longrightarrow>
     files (fold (emit lvl msg) hs L) = files L
     \<and> root_handlers (fold (emit lvl msg) hs L) = root_handlers L
     \<and> root_level (fold (emit lvl msg) hs L) = root_level L"
  by (induction hs arbitrary: L) (simp_all add: emit_stderr)

lemma logging_info_stderr:
  assumes "stderr_only L"
  shows "files (logging_info msg L) = files L \<and> stderr_only (logging_info msg L)
     \<and> root_level (logging_info msg L) = root_level L"
proof -
  define L1 where "L1 = (if root_handlers L = [] then basicConfig L else L)"
  have L1: "stderr_only L1" "files L1 = files L" "root_level L1 = root_level L"
    using assms by (auto simp: L1_def basicConfig_def stderr_only_def)
  have "logging_info msg L = (if root_level L1 \<le> INFO then fold (emit INFO msg) (root_handlers L1) L1 else L1)"
    by (simp add: logging_info_def L1_def Let_def)
  with L1 fold_emit_stderr[of "root_handlers L1" INFO msg L1] show ?thesis
    by (simp add: stderr_only_def)
qed

lemma handle_ping_stderr:
  assumes "stderr_only L"
  shows "files (snd (snd (handle_ping ip self request L))) = files L
     \<and> stderr_only (snd (snd (handle_ping ip self request L)))"
  using logging_info_stderr[OF assms]
  by (simp add: handle_ping_def Let_def split: sum.splits)

lemma serve_stderr:
  "stderr_only L \<Longrightarrow>
     files (snd (serve ip app requests self L)) = files L
     \<and> stderr_only (snd (serve ip app requests self L))"
proof (induction requests arbitrary: self L)
  case Nil
  then show ?case by simp
next
  case (Cons request rest)
  show ?case
  proof (cases "resolve (routes app) request")
    case None
    with Cons show ?thesis by simp
  next
    case (Some r)
    show ?thesis
    proof (cases "calls r")
      case HandlePing
      obtain out self' L' where h: "handle_ping ip self request L = (out, self', L')"
        by (cases "handle_ping ip self request L")
      with handle_ping_stderr[OF Cons.prems, of ip self request]
      have "files L' = files L" "stderr_only L'" by simp_all
      with Cons.IH[of L' self'] Some HandlePing h show ?thesis by simp
    next
      case (StaticFiles d)
      with Cons Some show ?thesis by simp
    next
      case Preflight
      with Cons Some show ?thesis by simp
    qed
  qed
qed

lemma port_busy:
  assumes "use_ssl \<longrightarrow> tls_material_good env" and "\<not> port_free env port"
  shows "with_application_server env app port use_ssl block st =
     (Some OSError, st\<lparr>effects := effects st @ [RunnerSetup]\<rparr>)"
  using assms
  by (auto simp: with_application_server_def tls_material_good_def create_default_context_def
      load_cert_chain_def Let_def split: option.splits)

lemma with_application_server_files:
  assumes "stderr_only (log st)"
    and "\<And>s. stderr_only (log s) \<Longrightarrow> files (log (snd (block s))) = files (log s)
            \<and> stderr_only (log (snd (block s)))"
  shows "files (log (snd (with_application_server env app port use_ssl block st))) = files (log st)"
proof (cases "(use_ssl \<longrightarrow> tls_material_good env) \<and> port_free env port")
  case True
  define st3 where "st3 = st\<lparr>bound := insert port (bound st),
                     effects := effects st @ [RunnerSetup, SiteStart port use_ssl],
                     log := logging_info (start_message env port) (log st)\<rparr>"
  obtain raised st4 where b: "block st3 = (raised, st4)"
    by (cases "block st3")
  have 3: "stderr_only (log st3)" "files (log st3) = files (log st)"
    using logging_info_stderr[OF assms(1)] by (simp_all add: st3_def)
  from assms(2)[OF 3(1)] b 3(2) have 4: "stderr_only (log st4)" "files (log st4) = files (log st)"
    by simp_all
  have "with_application_server env app port use_ssl block st =
      (raised, st4\<lparr>log := logging_info (shutdown_message env port) (log st4),
                      bound := bound st4 - {port},
                      effects := effects st4 @ [RunnerCleanup, Sleep]\<rparr>)"
    using True unfolding scope_entered[of use_ssl env port app block st, OF conjunct1[OF True] conjunct2[OF True]]
      st3_def[symmetric] by (simp add: b)
  with logging_info_stderr[OF 4(1)] 4(2) show ?thesis by simp
next
  case False
  show ?thesis
  proof (cases "use_ssl \<longrightarrow> tls_material_good env")
    case True
    with False have "\<not> port_free env port" by simp
    from port_busy[OF True this] show ?thesis by simp
  next
    case nt: False
    with startup_fails_without_tls[of env app port block st] obtain e
      where "with_application_server env app port use_ssl block st = (Some e, st)"
      by auto
    then show ?thesis by simp
  qed
qed

lemma set_up_logger_result:
  "snd (set_up_logger (logging_init fs)) =
     \<lparr>root_level = DEBUG, root_handlers = [], stderr = [],
      files = fs(''log.log'' \<mapsto> (case fs ''log.log'' of None \<Rightarrow> [] | Some ls \<Rightarrow> ls))\<rparr>"
  by (simp add: set_up_logger_def FileHandler_def logging_init_def Let_def)

lemma main_keeps_files:
  "files (log (snd (main ip env requests fs))) =
     fs(''log.log'' \<mapsto> (case fs ''log.log'' of None \<Rightarrow> [] | Some ls \<Rightarrow> ls))"
proof -
  obtain fh L where s: "set_up_logger (logging_init fs) = (fh, L)"
    by (cases "set_up_logger (logging_init fs)")
  with set_up_logger_result[of fs] have L: "L = \<lparr>root_level = DEBUG, root_handlers = [], stderr = [],
      files = fs(''log.log'' \<mapsto> (case fs ''log.log'' of None \<Rightarrow> [] | Some ls \<Rightarrow> ls))\<rparr>"
    by simp
  then have so: "stderr_only L"
    by (simp add: stderr_only_def)
  have "files (log (snd (run ip env requests \<lparr>log = L, bound = {}, effects = []\<rparr>))) = files L"
    unfolding run_def Let_def
    using with_application_server_files[of "\<lparr>log = L, bound = {}, effects = []\<rparr>"
        "\<lambda>s. (Some CancelledError,
           s\<lparr>log := snd (serve ip (make_app Server_init) requests Server_init (log s))\<rparr>)"
        env "make_app Server_init" 443 True]
    by (simp add: so serve_stderr)
  then show ?thesis
    by (simp add: main_def s L)
qed

lemma logging_info_no_handlers:
  "root_handlers L = [] \<Longrightarrow> root_level L \<le> INFO \<Longrightarrow>
     logging_info msg L =
       L\<lparr>root_handlers := [\<lparr>target = Stderr, handler_level = NOTSET, fmt = BASIC_FORMAT\<rparr>],
         stderr := stderr L @ [\<lparr>line_fmt = BASIC_FORMAT, line_level = INFO, line_msg = msg\<rparr>]\<rparr>"
  by (simp add: logging_info_def basicConfig_def emit_def Let_def NOTSET_def INFO_def)

lemma logging_info_basic_handler:
  "root_handlers L = [\<lparr>target = Stderr, handler_level = NOTSET, fmt = BASIC_FORMAT\<rparr>] \<Longrightarrow>
   root_level L \<le> INFO \<Longrightarrow>
     logging_info msg L =
       L\<lparr>stderr := stderr L @ [\<lparr>line_fmt = BASIC_FORMAT, line_level = INFO, line_msg = msg\<rparr>]\<rparr>"
  by (simp add: logging_info_def emit_def Let_def NOTSET_def INFO_def)

text \<open>
  C5 does not hold of the code. The process is started with good TLS material, serves one
  ping request with \<open>value=5\<close> and is then interrupted. The three events are logged,
  but to standard error in the basic format \<open>%(levelname)s:%(name)s:%(message)s\<close>,
  which has no time stamp; the file \<open>log.log\<close> is created and stays empty, because
  the file handler with the time-stamped format is never added to the logger.
\<close>

theorem main_log_file_stays_empty:
  "fst (main example_interp example_env [ping_request [(lit ''value'', lit ''5'')]] Map.empty)
     = Some CancelledError
   \<and> files (log (snd (main example_interp example_env
        [ping_request [(lit ''value'', lit ''5'')]] Map.empty))) ''log.log'' = Some []
   \<and> stderr (log (snd (main example_interp example_env
        [ping_request [(lit ''value'', lit ''5'')]] Map.empty))) =
       [\<lparr>line_fmt = BASIC_FORMAT, line_level = INFO, line_msg = start_message example_env 443\<rparr>,
        \<lparr>line_fmt = BASIC_FORMAT, line_level = INFO, line_msg = ping_message (Some (lit ''5''))\<rparr>,
        \<lparr>line_fmt = BASIC_FORMAT, line_level = INFO, line_msg = shutdown_message example_env 443\<rparr>]"
proof -
  let ?rq = "ping_request [(lit ''value'', lit ''5'')]"
  have g: "True \<longrightarrow> tls_material_good example_env"
    by (simp add: example_env_good)
  have p: "port_free example_env 443"
    by (simp add: example_env_def)
  have r: "resolve (routes (make_app Server_init)) ?rq =
      Some \<lparr>methods = [''GET''], pattern = lit ''/ping'', is_prefix = False, calls = HandlePing,
        cors = Some cors_defaults\<rparr>"
    by (simp add: routes_make_app fits_static fits_exact ping_request_def)
  have h: "headers_get (headers ?rq) (lit ''value'') = Some (lit ''5'')"
    by (simp add: ping_request_def)
  have s: "snd (set_up_logger (logging_init Map.empty)) =
     \<lparr>root_level = DEBUG, root_handlers = [], stderr = [],
      files = [''log.log'' \<mapsto> []]\<rparr>"
    by (simp add: set_up_logger_result)
  show ?thesis
    by (simp add: main_def run_def Let_def split_beta s scope_entered[OF g p] r h
        handle_ping_def logging_info_no_handlers logging_info_basic_handler DEBUG_def INFO_def
        del: lit_simps split: sum.splits)
qed

end
